theory Spec2Isabelle
  imports Complex_Main "HOL-Library.Sublist"
begin

section \<open>Data model of \<^verbatim>\<open>src/utils/weatherData.ts\<close>\<close>

text \<open>
  A TypeScript \<^verbatim>\<open>number\<close> is a double-precision floating-point number.  Every finite
  double is a real number, and the model represents a \<^verbatim>\<open>number\<close> by the real number it
  denotes; comparisons of doubles are then the comparisons of reals.  The scorer only
  adds the constants 10, -2, -1.5, -2.5, -1 and -0.5, all of which (and all their
  partial sums) are doubles, so its additions are exact.  The window finder subtracts
  0.3, 0.2 and 0.4, which are not doubles: there the literals and every subtraction are
  rounded as IEEE 754 prescribes (section on double-precision arithmetic below).  The
  special values NaN and infinity are not modelled.  A \<^verbatim>\<open>Date\<close> is modelled as its
  integer time value.
\<close>

type_synonym number = real
type_synonym Date = int

datatype condition = sunny | cloudy | rainy | stormy | snowy | partly_cloudy

record WeatherCondition =
  temp :: number
  feelsLike :: number
  precipitation :: number
  wind :: number
  humidity :: number
  uv :: number
  aqi :: number
  condition :: condition
  description :: string

record HourlyWeather = WeatherCondition +
  hour :: number
  timestamp :: Date

record DailyWeather = WeatherCondition +
  date :: Date
  tempMin :: number
  tempMax :: number
  hourlyData :: "HourlyWeather list"
  sunrise :: string
  sunset :: string

record ActivityPreferences =
  idealTempMin :: number
  idealTempMax :: number
  maxWindSpeed :: number
  maxPrecipitation :: number

text \<open>The element type of the \<^verbatim>\<open>factors\<close> array and the result object of \<^verbatim>\<open>calculateACIS\<close>.\<close>

record Factor =
  name :: string
  impact :: number
  "value" :: number

record ACISResult =
  score :: number
  factors :: "Factor list"

text \<open>The result object of \<^verbatim>\<open>findOptimalTimeWindow\<close>; the hours are loop counters.\<close>

record OptimalWindow =
  startHour :: nat
  endHour :: nat
  score :: number


section \<open>Activity profiles\<close>

text \<open>
  The constant \<^verbatim>\<open>activityDefaults\<close> is an object literal: its own properties are the ten
  entries below, and its prototype is \<^verbatim>\<open>Object.prototype\<close>.
\<close>

definition activityDefaults :: "(string \<times> ActivityPreferences) list" where
  "activityDefaults =
    [(''trekking'', \<lparr>idealTempMin = 10, idealTempMax = 25, maxWindSpeed = 20, maxPrecipitation = 20\<rparr>),
     (''photography'', \<lparr>idealTempMin = 5, idealTempMax = 30, maxWindSpeed = 25, maxPrecipitation = 10\<rparr>),
     (''picnic'', \<lparr>idealTempMin = 15, idealTempMax = 28, maxWindSpeed = 15, maxPrecipitation = 5\<rparr>),
     (''cycling'', \<lparr>idealTempMin = 12, idealTempMax = 26, maxWindSpeed = 20, maxPrecipitation = 10\<rparr>),
     (''beach day'', \<lparr>idealTempMin = 22, idealTempMax = 35, maxWindSpeed = 25, maxPrecipitation = 5\<rparr>),
     (''camping'', \<lparr>idealTempMin = 8, idealTempMax = 22, maxWindSpeed = 15, maxPrecipitation = 15\<rparr>),
     (''outdoor sports'', \<lparr>idealTempMin = 15, idealTempMax = 28, maxWindSpeed = 20, maxPrecipitation = 10\<rparr>),
     (''bird watching'', \<lparr>idealTempMin = 10, idealTempMax = 25, maxWindSpeed = 15, maxPrecipitation = 20\<rparr>),
     (''stargazing'', \<lparr>idealTempMin = 5, idealTempMax = 20, maxWindSpeed = 10, maxPrecipitation = 0\<rparr>),
     (''gardening'', \<lparr>idealTempMin = 12, idealTempMax = 28, maxWindSpeed = 15, maxPrecipitation = 30\<rparr>)]"

text \<open>
  The property names every ordinary object inherits from \<^verbatim>\<open>Object.prototype\<close>; each of
  them is bound to a function, except \<^verbatim>\<open>__proto__\<close>, whose getter yields the prototype
  object itself.
\<close>

definition Object_prototype_keys :: "string list" where
  "Object_prototype_keys =
    [''constructor'', ''__defineGetter__'', ''__defineSetter__'', ''hasOwnProperty'',
     ''__lookupGetter__'', ''__lookupSetter__'', ''isPrototypeOf'', ''propertyIsEnumerable'',
     ''toString'', ''valueOf'', ''__proto__'', ''toLocaleString'']"

text \<open>
  What a property read on \<^verbatim>\<open>activityDefaults\<close> can produce: \<^verbatim>\<open>undefined\<close>, one of the
  ten profiles, or the member of \<^verbatim>\<open>Object.prototype\<close> of the given name.
\<close>

datatype js_value = Undefined | Profile ActivityPreferences | Inherited string

text \<open>Functions and objects are truthy, \<^verbatim>\<open>undefined\<close> is falsy.\<close>

fun truthy :: "js_value \<Rightarrow> bool" where
  "truthy Undefined = False"
| "truthy (Profile p) = True"
| "truthy (Inherited k) = True"

text \<open>
  The property read \<^verbatim>\<open>activityDefaults[key]\<close>: an own property first, then the
  prototype chain.
\<close>

definition activityDefaults_get :: "string \<Rightarrow> js_value" where
  "activityDefaults_get key =
    (case map_of activityDefaults key of
       Some p \<Rightarrow> Profile p
     | None \<Rightarrow> if key \<in> set Object_prototype_keys then Inherited key else Undefined)"

text \<open>
  \<^verbatim>\<open>String.prototype.toLowerCase\<close> on strings of code points below 256 (the characters
  of type \<^typ>\<open>char\<close>, read as Latin-1): the letters A to Z and the accented capitals
  0xC0 to 0xDE other than the multiplication sign 0xD7 move up by 32.
\<close>

definition toLowerCase_char :: "char \<Rightarrow> char" where
  "toLowerCase_char c =
    (let n = (of_char c :: nat) in
     if (65 \<le> n \<and> n \<le> 90) \<or> (192 \<le> n \<and> n \<le> 222 \<and> n \<noteq> 215)
     then char_of (n + 32) else c)"

definition toLowerCase :: "string \<Rightarrow> string" where
  "toLowerCase s = map toLowerCase_char s"

definition getActivityPreferences :: "string \<Rightarrow> js_value" where
  "getActivityPreferences activityName =
    (let normalized = toLowerCase activityName;
         v = activityDefaults_get normalized
     in if truthy v then v else activityDefaults_get ''trekking'')"

section \<open>The suitability scorer\<close>

text \<open>
  The local variables \<^verbatim>\<open>factors\<close> and \<^verbatim>\<open>totalScore\<close> are threaded through the five
  conditional blocks as a pair; \<^verbatim>\<open>push\<close> appends at the end.
\<close>

definition calculateACIS :: "DailyWeather \<Rightarrow> ActivityPreferences \<Rightarrow> ACISResult" where
  "calculateACIS weather preferences =
    (let factors0 = [];
         totalScore0 = 10;
         tempScore = (if temp weather \<ge> idealTempMin preferences \<and>
                         temp weather \<le> idealTempMax preferences then 0 else - 2);
         (factors1, totalScore1) =
           (if tempScore \<noteq> 0
            then (factors0 @ [\<lparr>name = ''Temperature'', impact = tempScore, value = temp weather\<rparr>],
                  totalScore0 + tempScore)
            else (factors0, totalScore0));
         (factors2, totalScore2) =
           (if wind weather > maxWindSpeed preferences
            then (let windPenalty = - 1.5 in
                  (factors1 @ [\<lparr>name = ''Wind'', impact = windPenalty, value = wind weather\<rparr>],
                   totalScore1 + windPenalty))
            else (factors1, totalScore1));
         (factors3, totalScore3) =
           (if precipitation weather > maxPrecipitation preferences
            then (let precipPenalty = - 2.5 in
                  (factors2 @ [\<lparr>name = ''Precipitation'', impact = precipPenalty,
                                value = precipitation weather\<rparr>],
                   totalScore2 + precipPenalty))
            else (factors2, totalScore2));
         (factors4, totalScore4) =
           (if aqi weather > 100
            then (let aqiPenalty = - 1 in
                  (factors3 @ [\<lparr>name = ''Air Quality'', impact = aqiPenalty, value = aqi weather\<rparr>],
                   totalScore3 + aqiPenalty))
            else (factors3, totalScore3));
         (factors5, totalScore5) =
           (if uv weather > 8
            then (let uvPenalty = - 0.5 in
                  (factors4 @ [\<lparr>name = ''UV Index'', impact = uvPenalty, value = uv weather\<rparr>],
                   totalScore4 + uvPenalty))
            else (factors4, totalScore4))
     in \<lparr>ACISResult.score = max 1 (min 10 totalScore5), factors = factors5\<rparr>)"


section \<open>Double-precision arithmetic\<close>

text \<open>
  The binary exponent of a positive real \<open>a\<close> in the binary64 format: the \<open>e\<close> with
  \<open>2 powi e \<le> a < 2 powi (e + 1)\<close>, searched upwards from 0 when \<open>1 \<le> a\<close> and
  downwards otherwise, and kept within the exponent range of the format, from -1022 (below which the numbers
  are subnormal and share the exponent -1022) to 1023.
\<close>

function binade_up :: "real \<Rightarrow> int \<Rightarrow> int" where
  "binade_up a e = (if e < 1023 \<and> 2 powi (e + 1) \<le> a then binade_up a (e + 1) else e)"
  by pat_completeness auto
termination
  by (relation "measure (\<lambda>(a, e). nat (1023 - e))") auto

function binade_down :: "real \<Rightarrow> int \<Rightarrow> int" where
  "binade_down a e = (if - 1022 < e \<and> a < 2 powi e then binade_down a (e - 1) else e)"
  by pat_completeness auto
termination
  by (relation "measure (\<lambda>(a, e). nat (e + 1022))") auto

definition binade :: "real \<Rightarrow> int" where
  "binade a = (if 1 \<le> a then binade_up a 0 else binade_down a 0)"

text \<open>Rounding to the nearest integer, a tie going to the even neighbour.\<close>

definition roundTiesToEven :: "real \<Rightarrow> int" where
  "roundTiesToEven r =
    (let f = \<lfloor>r\<rfloor>; d = r - of_int f in
     if d < 1 / 2 then f else if d > 1 / 2 then f + 1 else if even f then f else f + 1)"

text \<open>
  The double nearest to a real number, a tie going to the double with the even
  significand: doubles with binary exponent \<open>e\<close> are the integer multiples of
  \<open>2 powi (e - 52)\<close>.  This is how a decimal literal such as \<^verbatim>\<open>0.3\<close> becomes a
  \<^verbatim>\<open>number\<close> and how the exact result of an arithmetic operation is rounded.  Overflow to infinity (a
  magnitude of \<open>2 ^ 1024\<close> or more) is not modelled; every score the window finder
  computes lies between 2.7 and 10 (lemma \<open>windowScore_bounds\<close> below).
\<close>

definition toDouble :: "real \<Rightarrow> number" where
  "toDouble x =
    (let q = 2 powi (binade \<bar>x\<bar> - 52)
     in q * of_int (roundTiesToEven (x / q)))"

text \<open>Subtraction of two doubles: the exact difference, rounded.\<close>

definition fsub :: "number \<Rightarrow> number \<Rightarrow> number" where
  "fsub x y = toDouble (x - y)"

section \<open>The optimal window finder\<close>

text \<open>
  \<^verbatim>\<open>Array.prototype.slice(start, end)\<close> for non-negative integer arguments: both bounds
  are capped at the length of the array, and the result holds the elements from the
  capped start up to (not including) the capped end, none when the start is not below
  the end.
\<close>

definition slice :: "'a list \<Rightarrow> nat \<Rightarrow> nat \<Rightarrow> 'a list" where
  "slice xs start endh =
    (let len = length xs;
         k = min start len;
         final = min endh len;
         count = final - k
     in take count (drop k xs))"

text \<open>
  The parameter \<^verbatim>\<open>hourlyData\<close> is called \<open>hourly\<close> below, the local \<^verbatim>\<open>end\<close> is
  called \<open>endh\<close>, and the callback's parameter \<^verbatim>\<open>hour\<close> is called \<open>h\<close>.
\<close>

text \<open>
  The callback of \<^verbatim>\<open>windowHours.forEach\<close>, as an update of the local \<^verbatim>\<open>score\<close>; each
  \<^verbatim>\<open>score -= c\<close> subtracts the double of the literal \<^verbatim>\<open>c\<close> and rounds.
\<close>

definition hourPenalty :: "ActivityPreferences \<Rightarrow> HourlyWeather \<Rightarrow> number \<Rightarrow> number" where
  "hourPenalty preferences h score0 =
    (let score1 = (if temp h < idealTempMin preferences \<or> temp h > idealTempMax preferences
                   then fsub score0 (toDouble 0.3) else score0);
         score2 = (if wind h > maxWindSpeed preferences
                   then fsub score1 (toDouble 0.2) else score1);
         score3 = (if precipitation h > maxPrecipitation preferences
                   then fsub score2 (toDouble 0.4) else score2)
     in score3)"

text \<open>The score of the window from \<^verbatim>\<open>start\<close> to \<^verbatim>\<open>end\<close>: slice, start at 10, run the callback.\<close>

definition windowScore ::
  "HourlyWeather list \<Rightarrow> ActivityPreferences \<Rightarrow> nat \<Rightarrow> nat \<Rightarrow> number" where
  "windowScore hourly preferences start endh =
    (let windowHours = slice hourly start endh
     in fold (hourPenalty preferences) windowHours 10)"

text \<open>The body of the inner loop, with \<^verbatim>\<open>continue\<close> leaving the best window as it is.\<close>

definition tryWindow ::
  "HourlyWeather list \<Rightarrow> ActivityPreferences \<Rightarrow> nat \<Rightarrow> nat \<Rightarrow> OptimalWindow \<Rightarrow> OptimalWindow" where
  "tryWindow hourly preferences start duration bestWindow =
    (let endh = start + duration in
     if endh > 20 then bestWindow
     else (let sc = windowScore hourly preferences start endh in
           if sc > OptimalWindow.score bestWindow
           then \<lparr>startHour = start, endHour = endh, score = sc\<rparr>
           else bestWindow))"

text \<open>\<^verbatim>\<open>for (let duration = 3; duration <= 8; duration++)\<close>, entered at any counter value.\<close>

function durationLoop ::
  "HourlyWeather list \<Rightarrow> ActivityPreferences \<Rightarrow> nat \<Rightarrow> nat \<Rightarrow> OptimalWindow \<Rightarrow> OptimalWindow" where
  "durationLoop hourly preferences start duration bestWindow =
    (if duration \<le> 8
     then durationLoop hourly preferences start (duration + 1)
            (tryWindow hourly preferences start duration bestWindow)
     else bestWindow)"
  by pat_completeness auto
termination
  by (relation "measure (\<lambda>(hourly, preferences, start, duration, bestWindow). 9 - duration)") auto

text \<open>\<^verbatim>\<open>for (let start = 6; start < 18; start++)\<close>, entered at any counter value.\<close>

function startLoop ::
  "HourlyWeather list \<Rightarrow> ActivityPreferences \<Rightarrow> nat \<Rightarrow> OptimalWindow \<Rightarrow> OptimalWindow" where
  "startLoop hourly preferences start bestWindow =
    (if start < 18
     then startLoop hourly preferences (start + 1)
            (durationLoop hourly preferences start 3 bestWindow)
     else bestWindow)"
  by pat_completeness auto
termination
  by (relation "measure (\<lambda>(hourly, preferences, start, bestWindow). 18 - start)") auto

definition findOptimalTimeWindow ::
  "HourlyWeather list \<Rightarrow> ActivityPreferences \<Rightarrow> OptimalWindow" where
  "findOptimalTimeWindow hourly preferences =
    startLoop hourly preferences 6 \<lparr>startHour = 9, endHour = 17, score = 0\<rparr>"


section \<open>The candidate space of the search\<close>

text \<open>
  The pairs of start hour and duration that the two loops visit without hitting
  \<^verbatim>\<open>continue\<close>, in the order in which they are visited: start hours ascending, and
  for each start hour the durations ascending.
\<close>

definition windowCandidates :: "(nat \<times> nat) list" where
  "windowCandidates =
     filter (\<lambda>(start, duration). start + duration \<le> 20) (List.product [6..<18] [3..<9])"

text \<open>The object that the loop body assigns to \<^verbatim>\<open>bestWindow\<close> for a candidate.\<close>

definition candidateWindow ::
  "HourlyWeather list \<Rightarrow> ActivityPreferences \<Rightarrow> nat \<times> nat \<Rightarrow> OptimalWindow" where
  "candidateWindow hourly preferences c =
     \<lparr>startHour = fst c, endHour = fst c + snd c,
      score = windowScore hourly preferences (fst c) (fst c + snd c)\<rparr>"

text \<open>The comparison and assignment at the end of the loop body.\<close>

definition keepBetter ::
  "HourlyWeather list \<Rightarrow> ActivityPreferences \<Rightarrow> nat \<times> nat \<Rightarrow> OptimalWindow \<Rightarrow> OptimalWindow" where
  "keepBetter hourly preferences c bestWindow =
     (if windowScore hourly preferences (fst c) (fst c + snd c) > OptimalWindow.score bestWindow
      then candidateWindow hourly preferences c else bestWindow)"

text \<open>Iteration order on candidates: earlier start hour, or same start hour and shorter duration.\<close>

definition lexBefore :: "nat \<times> nat \<Rightarrow> nat \<times> nat \<Rightarrow> bool" where
  "lexBefore c c' = (fst c < fst c' \<or> (fst c = fst c' \<and> snd c < snd c'))"

section \<open>Sample inputs\<close>

text \<open>
  Notation for the concrete inputs at which the general theorems below are instantiated:
  the trekking entry of \<^verbatim>\<open>activityDefaults\<close>, and three hourly samples, one inside the
  trekking envelope, one too hot for it, and one that breaks all three of its limits.
\<close>

abbreviation trekkingProfile :: ActivityPreferences where
  "trekkingProfile \<equiv>
     \<lparr>idealTempMin = 10, idealTempMax = 25, maxWindSpeed = 20, maxPrecipitation = 20\<rparr>"

abbreviation calmHour :: HourlyWeather where
  "calmHour \<equiv>
     \<lparr>temp = 20, feelsLike = 20, precipitation = 0, wind = 5, humidity = 50, uv = 3, aqi = 30,
      condition = sunny, description = ''clear'', hour = 0, timestamp = 0\<rparr>"

abbreviation hotHour :: HourlyWeather where
  "hotHour \<equiv>
     \<lparr>temp = 38, feelsLike = 38, precipitation = 0, wind = 5, humidity = 50, uv = 3, aqi = 30,
      condition = sunny, description = ''clear'', hour = 0, timestamp = 0\<rparr>"

abbreviation stormyHour :: HourlyWeather where
  "stormyHour \<equiv>
     \<lparr>temp = 38, feelsLike = 38, precipitation = 90, wind = 55, humidity = 50, uv = 3, aqi = 30,
      condition = sunny, description = ''clear'', hour = 0, timestamp = 0\<rparr>"

section \<open>Properties of the scorer\<close>

text \<open>
  Both components of the result in closed form: the five blocks are independent, each
  adds its constant to the total and appends its factor exactly when its test fires.
\<close>

lemma calculateACIS_closed_form:
  "calculateACIS weather preferences =
    \<lparr>ACISResult.score = max 1 (min 10 (10
       + (if temp weather < idealTempMin preferences \<or> temp weather > idealTempMax preferences
          then - 2 else 0)
       + (if wind weather > maxWindSpeed preferences then - 1.5 else 0)
       + (if precipitation weather > maxPrecipitation preferences then - 2.5 else 0)
       + (if aqi weather > 100 then - 1 else 0)
       + (if uv weather > 8 then - 0.5 else 0))),
     factors =
       (if temp weather < idealTempMin preferences \<or> temp weather > idealTempMax preferences
        then [\<lparr>name = ''Temperature'', impact = - 2, value = temp weather\<rparr>] else []) @
       (if wind weather > maxWindSpeed preferences
        then [\<lparr>name = ''Wind'', impact = - 1.5, value = wind weather\<rparr>] else []) @
       (if precipitation weather > maxPrecipitation preferences
        then [\<lparr>name = ''Precipitation'', impact = - 2.5, value = precipitation weather\<rparr>]
        else []) @
       (if aqi weather > 100
        then [\<lparr>name = ''Air Quality'', impact = - 1, value = aqi weather\<rparr>] else []) @
       (if uv weather > 8
        then [\<lparr>name = ''UV Index'', impact = - 0.5, value = uv weather\<rparr>] else [])\<rparr>"
  by (simp add: calculateACIS_def Let_def not_le)

lemma clamp_bounds: "1 \<le> max 1 (min 10 (x::real)) \<and> max 1 (min 10 x) \<le> 10"
  by simp

text \<open>
  Claim C1.  The score is 10 plus the sum of the five independent penalties (-2 for a
  temperature below \<open>idealTempMin\<close> or above \<open>idealTempMax\<close>, -1.5 for wind above
  \<open>maxWindSpeed\<close>, -2.5 for precipitation above \<open>maxPrecipitation\<close>, -1 for an AQI above
  100, -0.5 for a UV index above 8), clamped to the interval from 1 to 10.  On a day with
  temp 38, wind 55, precipitation 90, aqi 160 and uv 9 (whatever its other fields) and
  the trekking profile the score is 2.5 and all five factors are present.
\<close>

theorem calculateACIS_score:
  "ACISResult.score (calculateACIS weather preferences) =
     max 1 (min 10 (10
       + (if temp weather < idealTempMin preferences \<or> temp weather > idealTempMax preferences
          then - 2 else 0)
       + (if wind weather > maxWindSpeed preferences then - 1.5 else 0)
       + (if precipitation weather > maxPrecipitation preferences then - 2.5 else 0)
       + (if aqi weather > 100 then - 1 else 0)
       + (if uv weather > 8 then - 0.5 else 0)))
   \<and> calculateACIS
         (weather\<lparr>temp := 38, wind := 55, precipitation := 90, aqi := 160, uv := 9\<rparr>)
         \<lparr>idealTempMin = 10, idealTempMax = 25, maxWindSpeed = 20, maxPrecipitation = 20\<rparr> =
       \<lparr>ACISResult.score = 2.5,
        factors = [\<lparr>name = ''Temperature'', impact = - 2, value = 38\<rparr>,
                   \<lparr>name = ''Wind'', impact = - 1.5, value = 55\<rparr>,
                   \<lparr>name = ''Precipitation'', impact = - 2.5, value = 90\<rparr>,
                   \<lparr>name = ''Air Quality'', impact = - 1, value = 160\<rparr>,
                   \<lparr>name = ''UV Index'', impact = - 0.5, value = 9\<rparr>]\<rparr>"
  unfolding calculateACIS_closed_form by simp

text \<open>
  Claim C5.  For every daily summary and every profile the score lies between 1 and 10,
  both inclusive.
\<close>

theorem calculateACIS_score_range:
  "1 \<le> ACISResult.score (calculateACIS weather preferences) \<and>
   ACISResult.score (calculateACIS weather preferences) \<le> 10"
  unfolding calculateACIS_closed_form ACISResult.select_convs by (rule clamp_bounds)

text \<open>
  Claim C6.  The factors list is the concatenation, in the order Temperature, Wind,
  Precipitation, Air Quality, UV Index, of one entry for each rule whose test fired and
  of nothing for the others; the entry carries the rule's constant as impact and the
  tested input field as value.  Hence the names form a subsequence of the five labels in
  their fixed order, no name occurs twice, there are at most five entries, and every
  impact is at most 0.
\<close>

theorem calculateACIS_factors:
  "factors (calculateACIS weather preferences) =
     (if temp weather < idealTempMin preferences \<or> temp weather > idealTempMax preferences
      then [\<lparr>name = ''Temperature'', impact = - 2, value = temp weather\<rparr>] else []) @
     (if wind weather > maxWindSpeed preferences
      then [\<lparr>name = ''Wind'', impact = - 1.5, value = wind weather\<rparr>] else []) @
     (if precipitation weather > maxPrecipitation preferences
      then [\<lparr>name = ''Precipitation'', impact = - 2.5, value = precipitation weather\<rparr>]
      else []) @
     (if aqi weather > 100
      then [\<lparr>name = ''Air Quality'', impact = - 1, value = aqi weather\<rparr>] else []) @
     (if uv weather > 8
      then [\<lparr>name = ''UV Index'', impact = - 0.5, value = uv weather\<rparr>] else [])
   \<and> subseq (map name (factors (calculateACIS weather preferences)))
         [''Temperature'', ''Wind'', ''Precipitation'', ''Air Quality'', ''UV Index'']
   \<and> distinct (map name (factors (calculateACIS weather preferences)))
   \<and> length (factors (calculateACIS weather preferences)) \<le> 5
   \<and> list_all (\<lambda>f. impact f \<le> 0) (factors (calculateACIS weather preferences))"
  unfolding calculateACIS_closed_form ACISResult.select_convs by simp

section \<open>Properties of the window finder\<close>

subsection \<open>The error of rounding\<close>

lemma roundTiesToEven_error: "\<bar>of_int (roundTiesToEven r) - r\<bar> \<le> 1 / 2"
proof -
  have "of_int \<lfloor>r\<rfloor> \<le> r" and "r < of_int \<lfloor>r\<rfloor> + 1"
    by linarith+
  then show ?thesis
    by (auto simp add: roundTiesToEven_def Let_def)
qed

lemma binade_up_le: "2 powi e \<le> a \<Longrightarrow> 2 powi (binade_up a e) \<le> a"
proof (induction a e rule: binade_up.induct)
  case (1 a e)
  show ?case
  proof (cases "e < 1023 \<and> 2 powi (e + 1) \<le> a")
    case True
    with 1 show ?thesis by (subst binade_up.simps) simp
  next
    case False
    with 1 show ?thesis by (subst binade_up.simps) auto
  qed
qed

lemma binade_le: "1 \<le> a \<Longrightarrow> 2 powi (binade a) \<le> a"
  using binade_up_le [of 0 a] by (simp add: binade_def)

lemma toDouble_error:
  assumes "1 \<le> x"
  shows "\<bar>toDouble x - x\<bar> \<le> x / 2 ^ 53"
proof -
  define q :: real where "q = 2 powi (binade \<bar>x\<bar> - 52)"
  have qpos: "0 < q" by (simp add: q_def)
  have "q = 2 powi (binade x) / 2 ^ 52"
    using assms by (simp add: q_def power_int_diff)
  also have "\<dots> \<le> x / 2 ^ 52"
    using binade_le [OF assms] by (simp add: divide_right_mono)
  finally have qle: "q \<le> x / 2 ^ 52" .
  have "toDouble x - x = q * (of_int (roundTiesToEven (x / q)) - x / q)"
    using qpos by (simp add: toDouble_def Let_def q_def [symmetric] algebra_simps)
  then have "\<bar>toDouble x - x\<bar> = q * \<bar>of_int (roundTiesToEven (x / q)) - x / q\<bar>"
    using qpos by (simp add: abs_mult)
  also have "\<dots> \<le> q * (1 / 2)"
    using roundTiesToEven_error [of "x / q"] qpos by (intro mult_left_mono) simp_all
  also have "\<dots> \<le> (x / 2 ^ 52) * (1 / 2)"
    using qle by simp
  also have "\<dots> = x / 2 ^ 53" by simp
  finally show ?thesis .
qed

lemma double_03: "toDouble 0.3 = 5404319552844595 / 18014398509481984"
  by code_simp

lemma double_02: "toDouble 0.2 = 3602879701896397 / 18014398509481984"
  by code_simp

lemma double_04: "toDouble 0.4 = 3602879701896397 / 9007199254740992"
  by code_simp

lemma fsub_bounds:
  assumes "3 / 2 \<le> s" and "s \<le> 10" and "0 \<le> c" and "c \<le> 1 / 2"
  shows "s - c - 2 / 10 ^ 15 \<le> fsub s c \<and> fsub s c \<le> s - c + 2 / 10 ^ 15"
proof -
  have x: "1 \<le> s - c" "s - c \<le> 10" using assms by simp_all
  have "\<bar>toDouble (s - c) - (s - c)\<bar> \<le> (s - c) / 2 ^ 53"
    using x(1) by (rule toDouble_error)
  also have "\<dots> \<le> 10 / 2 ^ 53" using x(2) by (simp add: divide_right_mono)
  also have "\<dots> \<le> 2 / 10 ^ 15" by simp
  finally show ?thesis unfolding fsub_def by linarith
qed

lemma penalty_step_03:
  assumes "3 / 2 \<le> s" and "s \<le> 10"
  shows "s - 0.3 - 3 / 10 ^ 15 \<le> fsub s (toDouble 0.3) \<and> fsub s (toDouble 0.3) \<le> s"
  using fsub_bounds [OF assms, of "toDouble 0.3"] unfolding double_03 by simp

lemma penalty_step_02:
  assumes "3 / 2 \<le> s" and "s \<le> 10"
  shows "s - 0.2 - 3 / 10 ^ 15 \<le> fsub s (toDouble 0.2) \<and> fsub s (toDouble 0.2) \<le> s"
  using fsub_bounds [OF assms, of "toDouble 0.2"] unfolding double_02 by simp

lemma penalty_step_04:
  assumes "3 / 2 \<le> s" and "s \<le> 10"
  shows "s - 0.4 - 3 / 10 ^ 15 \<le> fsub s (toDouble 0.4) \<and> fsub s (toDouble 0.4) \<le> s"
  using fsub_bounds [OF assms, of "toDouble 0.4"] unfolding double_04 by simp

subsection \<open>Slicing and the score of one window\<close>

lemma slice_take_drop: "slice xs start endh = take (endh - start) (drop start xs)"
  by (simp add: slice_def Let_def min_def)

lemma slice_nth: "slice xs start endh = map ((!) xs) [start ..< min endh (length xs)]"
  unfolding slice_take_drop
  by (rule nth_equalityI) (auto simp add: min_def split: if_splits)

lemma length_slice: "length (slice xs start endh) = min endh (length xs) - start"
  by (simp add: slice_nth)

lemma slice_min: "slice xs start endh = slice xs start (min endh (length xs))"
  by (simp add: slice_def Let_def)

lemma hourPenalty_bounds:
  assumes "29 / 10 \<le> s" and "s \<le> 10"
  shows "s - 90000000000001 / 100000000000000 \<le> hourPenalty p h s \<and> hourPenalty p h s \<le> s"
proof -
  define s1 where "s1 = (if temp h < idealTempMin p \<or> temp h > idealTempMax p
                         then fsub s (toDouble 0.3) else s)"
  define s2 where "s2 = (if wind h > maxWindSpeed p then fsub s1 (toDouble 0.2) else s1)"
  define s3 where "s3 = (if precipitation h > maxPrecipitation p
                         then fsub s2 (toDouble 0.4) else s2)"
  have r: "hourPenalty p h s = s3"
    by (simp add: hourPenalty_def Let_def s1_def s2_def s3_def)
  have b1: "s - 0.3 - 3 / 10 ^ 15 \<le> s1 \<and> s1 \<le> s"
    using penalty_step_03 [of s] assms by (simp add: s1_def)
  then have a1: "3 / 2 \<le> s1" "s1 \<le> 10" using assms by simp_all
  have b2: "s1 - 0.2 - 3 / 10 ^ 15 \<le> s2 \<and> s2 \<le> s1"
    using penalty_step_02 [OF a1] by (simp add: s2_def)
  then have a2: "3 / 2 \<le> s2" "s2 \<le> 10" using b1 assms by simp_all
  have b3: "s2 - 0.4 - 3 / 10 ^ 15 \<le> s3 \<and> s3 \<le> s2"
    using penalty_step_04 [OF a2] by (simp add: s3_def)
  from b1 b2 b3 show ?thesis unfolding r by simp
qed

lemma fold_hourPenalty_bounds:
  assumes "s \<le> 10" and "2 + (90000000000001 / 100000000000000) * real (length hs) \<le> s"
  shows "s - (90000000000001 / 100000000000000) * real (length hs) \<le> fold (hourPenalty p) hs s \<and>
         fold (hourPenalty p) hs s \<le> s"
  using assms
proof (induction hs arbitrary: s)
  case Nil
  show ?case by simp
next
  case (Cons h hs)
  have e: "(90000000000001 / 100000000000000) * real (length (h # hs)) =
           (90000000000001 / 100000000000000) + (90000000000001 / 100000000000000) * real (length hs)"
    by (simp add: algebra_simps)
  have nn: "0 \<le> (90000000000001 / 100000000000000) * real (length hs)" by simp
  from Cons.prems(2) have lo: "29 / 10 \<le> s" unfolding e using nn by linarith
  have a: "s - 90000000000001 / 100000000000000 \<le> hourPenalty p h s" and b: "hourPenalty p h s \<le> s"
    using hourPenalty_bounds [OF lo Cons.prems(1), of p h] by simp_all
  have p1: "hourPenalty p h s \<le> 10" using b Cons.prems(1) by linarith
  have p2: "2 + (90000000000001 / 100000000000000) * real (length hs) \<le> hourPenalty p h s"
    using Cons.prems(2) a unfolding e by linarith
  have c: "hourPenalty p h s - (90000000000001 / 100000000000000) * real (length hs)
             \<le> fold (hourPenalty p) hs (hourPenalty p h s)"
    and d: "fold (hourPenalty p) hs (hourPenalty p h s) \<le> hourPenalty p h s"
    using Cons.IH [OF p1 p2] by simp_all
  have "s - (90000000000001 / 100000000000000) * real (length (h # hs))
          \<le> fold (hourPenalty p) hs (hourPenalty p h s)"
    unfolding e using a c by linarith
  moreover have "fold (hourPenalty p) hs (hourPenalty p h s) \<le> s"
    using b d by linarith
  ultimately show ?case by simp
qed

lemma windowScore_bounds:
  assumes "endh - start \<le> 8"
  shows "10 - (90000000000001 / 100000000000000) * real (endh - start) \<le> windowScore hourly p start endh \<and>
         windowScore hourly p start endh \<le> 10"
proof -
  have len: "length (slice hourly start endh) \<le> endh - start"
    by (simp add: length_slice)
  then have m: "(90000000000001 / 100000000000000) * real (length (slice hourly start endh))
                  \<le> (90000000000001 / 100000000000000) * real (endh - start)"
    by (intro mult_left_mono) simp_all
  have "real (endh - start) \<le> 8" using assms by simp
  then have "(90000000000001 / 100000000000000) * real (endh - start) \<le> (90000000000001 / 100000000000000) * 8"
    by (intro mult_left_mono) simp_all
  with m have "2 + (90000000000001 / 100000000000000) * real (length (slice hourly start endh)) \<le> 10"
    by simp
  from fold_hourPenalty_bounds [OF _ this, of p] m
  show ?thesis by (simp add: windowScore_def Let_def)
qed

lemma first_window_positive: "7 < windowScore hourly p 6 9"
proof -
  have "10 - (90000000000001 / 100000000000000) * real (9 - 6) \<le> windowScore hourly p 6 9"
    using windowScore_bounds [of 9 6 hourly p] by simp
  then show ?thesis by simp
qed

subsection \<open>The two loops as a fold over the candidates\<close>

lemma durationLoop_fold:
  "durationLoop hourly p start duration b = fold (tryWindow hourly p start) [duration..<9] b"
proof (induction hourly p start duration b rule: durationLoop.induct)
  case (1 hourly p start duration b)
  show ?case
  proof (cases "duration \<le> 8")
    case True
    then have "[duration..<9] = duration # [duration + 1..<9]"
      by (simp add: upt_conv_Cons)
    with True 1 show ?thesis
      by (subst durationLoop.simps) simp
  next
    case False
    then show ?thesis by (subst durationLoop.simps) simp
  qed
qed

lemma startLoop_fold:
  "startLoop hourly p start b =
     fold (\<lambda>s. fold (tryWindow hourly p s) [3..<9]) [start..<18] b"
proof (induction hourly p start b rule: startLoop.induct)
  case (1 hourly p start b)
  show ?case
  proof (cases "start < 18")
    case True
    then have "[start..<18] = start # [start + 1..<18]"
      by (simp add: upt_conv_Cons)
    with True 1 show ?thesis
      by (subst startLoop.simps) (simp only: durationLoop_fold fold_simps if_True comp_def)
  next
    case False
    then have "[start..<18] = []" by simp
    with False show ?thesis by (subst startLoop.simps) (simp only: fold_simps if_False id_def)
  qed
qed

lemma fold_product:
  "fold f (List.product xs ys) b = fold (\<lambda>x. fold (\<lambda>y. f (x, y)) ys) xs b"
  by (induction xs arbitrary: b) (simp_all add: fold_map comp_def)

lemma tryWindow_keepBetter:
  "tryWindow hourly p start duration b =
     (if start + duration \<le> 20 then keepBetter hourly p (start, duration) b else b)"
  by (simp add: tryWindow_def keepBetter_def candidateWindow_def Let_def)

lemma findOptimalTimeWindow_fold:
  "findOptimalTimeWindow hourly p =
     fold (keepBetter hourly p) windowCandidates \<lparr>startHour = 9, endHour = 17, score = 0\<rparr>"
proof -
  have "(\<lambda>c. if (case c of (start, duration) \<Rightarrow> start + duration \<le> 20)
              then keepBetter hourly p c else id)
        = (\<lambda>c. tryWindow hourly p (fst c) (snd c))"
    by (auto simp add: fun_eq_iff tryWindow_keepBetter)
  then have "fold (keepBetter hourly p) windowCandidates b =
      fold (\<lambda>s. fold (tryWindow hourly p s) [3..<9]) [6..<18] b" for b
    by (simp only: windowCandidates_def fold_filter fold_product fst_conv snd_conv)
  then show ?thesis
    by (simp only: findOptimalTimeWindow_def startLoop_fold)
qed

lemma fold_first_max:
  fixes sc :: "'c \<Rightarrow> real" and val :: "'b \<Rightarrow> real"
  assumes mk: "\<And>c. val (mk c) = sc c"
    and sorted: "sorted_wrt lt cs"
  shows "(fold (\<lambda>c b. if sc c > val b then mk c else b) cs b = b \<and> (\<forall>c\<in>set cs. sc c \<le> val b)) \<or>
         (\<exists>c\<in>set cs. fold (\<lambda>c b. if sc c > val b then mk c else b) cs b = mk c \<and>
            val b < sc c \<and> (\<forall>c'\<in>set cs. sc c' \<le> sc c) \<and>
            (\<forall>c'\<in>set cs. sc c' = sc c \<longrightarrow> c' = c \<or> lt c c'))"
  using sorted
proof (induction cs arbitrary: b)
  case Nil
  show ?case by simp
next
  case (Cons a cs)
  let ?f = "\<lambda>c b. if sc c > val b then mk c else b"
  from Cons.prems have srt: "sorted_wrt lt cs" and first: "\<forall>c'\<in>set cs. lt a c'"
    by simp_all
  show ?case
  proof (cases "sc a > val b")
    case True
    then have step: "fold ?f (a # cs) b = fold ?f cs (mk a)" by simp
    from Cons.IH [OF srt, of "mk a"] show ?thesis
    proof
      assume "fold ?f cs (mk a) = mk a \<and> (\<forall>c\<in>set cs. sc c \<le> val (mk a))"
      then have r: "fold ?f cs (mk a) = mk a" and le: "\<forall>c\<in>set cs. sc c \<le> sc a"
        by (simp_all add: mk)
      have "a \<in> set (a # cs)" by simp
      moreover have "fold ?f (a # cs) b = mk a" unfolding step by (rule r)
      moreover have "\<forall>c'\<in>set (a # cs). sc c' \<le> sc a" using le by simp
      moreover have "\<forall>c'\<in>set (a # cs). sc c' = sc a \<longrightarrow> c' = a \<or> lt a c'"
        using first by simp
      ultimately show ?thesis using True by blast
    next
      assume "\<exists>c\<in>set cs. fold ?f cs (mk a) = mk c \<and> val (mk a) < sc c \<and>
                (\<forall>c'\<in>set cs. sc c' \<le> sc c) \<and>
                (\<forall>c'\<in>set cs. sc c' = sc c \<longrightarrow> c' = c \<or> lt c c')"
      then obtain c where c: "c \<in> set cs" "fold ?f cs (mk a) = mk c" "sc a < sc c"
        "\<forall>c'\<in>set cs. sc c' \<le> sc c" "\<forall>c'\<in>set cs. sc c' = sc c \<longrightarrow> c' = c \<or> lt c c'"
        unfolding mk by blast
      have "c \<in> set (a # cs)" using c(1) by simp
      moreover have "fold ?f (a # cs) b = mk c" unfolding step by (rule c(2))
      moreover have "val b < sc c" using True c(3) by linarith
      moreover have "\<forall>c'\<in>set (a # cs). sc c' \<le> sc c" using c(3,4) by simp
      moreover have "\<forall>c'\<in>set (a # cs). sc c' = sc c \<longrightarrow> c' = c \<or> lt c c'"
        using c(3,5) by simp
      ultimately show ?thesis by blast
    qed
  next
    case False
    then have step: "fold ?f (a # cs) b = fold ?f cs b" by simp
    from Cons.IH [OF srt, of b] show ?thesis
    proof
      assume "fold ?f cs b = b \<and> (\<forall>c\<in>set cs. sc c \<le> val b)"
      then have "fold ?f (a # cs) b = b" and "\<forall>c\<in>set (a # cs). sc c \<le> val b"
        using False step by simp_all
      then show ?thesis by blast
    next
      assume "\<exists>c\<in>set cs. fold ?f cs b = mk c \<and> val b < sc c \<and>
                (\<forall>c'\<in>set cs. sc c' \<le> sc c) \<and>
                (\<forall>c'\<in>set cs. sc c' = sc c \<longrightarrow> c' = c \<or> lt c c')"
      then obtain c where c: "c \<in> set cs" "fold ?f cs b = mk c" "val b < sc c"
        "\<forall>c'\<in>set cs. sc c' \<le> sc c" "\<forall>c'\<in>set cs. sc c' = sc c \<longrightarrow> c' = c \<or> lt c c'"
        by blast
      have ac: "sc a < sc c" using False c(3) by linarith
      have "c \<in> set (a # cs)" using c(1) by simp
      moreover have "fold ?f (a # cs) b = mk c" unfolding step by (rule c(2))
      moreover have "\<forall>c'\<in>set (a # cs). sc c' \<le> sc c" using ac c(4) by simp
      moreover have "\<forall>c'\<in>set (a # cs). sc c' = sc c \<longrightarrow> c' = c \<or> lt c c'"
        using ac c(5) by simp
      ultimately show ?thesis using c(3) by blast
    qed
  qed
qed

lemma set_windowCandidates:
  "set windowCandidates =
     {(start, duration). 6 \<le> start \<and> start < 18 \<and> 3 \<le> duration \<and> duration < 9 \<and>
        start + duration \<le> 20}"
  unfolding windowCandidates_def set_filter set_product set_upt by auto

lemma sorted_wrt_product:
  "sorted_wrt (<) xs \<Longrightarrow> sorted_wrt (<) ys \<Longrightarrow> sorted_wrt lexBefore (List.product xs ys)"
  by (induction xs) (auto simp add: sorted_wrt_append sorted_wrt_map lexBefore_def)

lemma sorted_windowCandidates: "sorted_wrt lexBefore windowCandidates"
  unfolding windowCandidates_def
  by (intro sorted_wrt_filter sorted_wrt_product) simp_all

text \<open>
  Termination of the two loops, as statements: the relation between a loop state and the
  state of the next iteration is well-founded, since the distance of the counter from
  its bound decreases, so every state is in the domain of the recursion.
\<close>

lemma durationLoop_total: "durationLoop_dom (hourly, p, start, duration, b)"
proof -
  have "wfp durationLoop_rel"
  proof (rule wfp_if_convertible_to_nat)
    fix x y
    assume "durationLoop_rel x y"
    then show "(case x of (hourly, preferences, start, duration, bestWindow) \<Rightarrow> 9 - duration)
             < (case y of (hourly, preferences, start, duration, bestWindow) \<Rightarrow> 9 - duration)"
      by (rule durationLoop_rel.cases) simp
  qed
  then show ?thesis by (rule accp_wfpD)
qed

lemma startLoop_total: "startLoop_dom (hourly, p, start, b)"
proof -
  have "wfp startLoop_rel"
  proof (rule wfp_if_convertible_to_nat)
    fix x y
    assume "startLoop_rel x y"
    then show "(case x of (hourly, preferences, start, bestWindow) \<Rightarrow> 18 - start)
             < (case y of (hourly, preferences, start, bestWindow) \<Rightarrow> 18 - start)"
      by (rule startLoop_rel.cases) simp
  qed
  then show ?thesis by (rule accp_wfpD)
qed

lemma first_candidate: "(6, 3) \<in> set windowCandidates"
  by (simp add: set_windowCandidates)

lemma findOptimalTimeWindow_winner:
  "\<exists>c\<in>set windowCandidates.
     findOptimalTimeWindow hourly p = candidateWindow hourly p c \<and>
     0 < windowScore hourly p (fst c) (fst c + snd c) \<and>
     (\<forall>c'\<in>set windowCandidates.
        windowScore hourly p (fst c') (fst c' + snd c') \<le> windowScore hourly p (fst c) (fst c + snd c)) \<and>
     (\<forall>c'\<in>set windowCandidates.
        windowScore hourly p (fst c') (fst c' + snd c') = windowScore hourly p (fst c) (fst c + snd c)
        \<longrightarrow> c' = c \<or> lexBefore c c')"
proof -
  let ?sc = "\<lambda>c. windowScore hourly p (fst c) (fst c + snd c)"
  let ?b = "\<lparr>startHour = 9, endHour = 17, score = 0\<rparr>"
  have kb: "keepBetter hourly p = (\<lambda>c b. if ?sc c > OptimalWindow.score b then candidateWindow hourly p c else b)"
    by (simp add: fun_eq_iff keepBetter_def)
  have mk: "\<And>c. OptimalWindow.score (candidateWindow hourly p c) = ?sc c"
    by (simp add: candidateWindow_def)
  have pos: "0 < ?sc (6, 3)"
    using first_window_positive [of hourly p] by simp
  from fold_first_max [of OptimalWindow.score "candidateWindow hourly p" ?sc lexBefore
      windowCandidates ?b, OF mk sorted_windowCandidates]
  show ?thesis
  proof
    assume "fold (\<lambda>c b. if ?sc c > OptimalWindow.score b then candidateWindow hourly p c else b)
              windowCandidates ?b = ?b \<and>
            (\<forall>c\<in>set windowCandidates. ?sc c \<le> OptimalWindow.score ?b)"
    then have "?sc (6, 3) \<le> 0" using first_candidate by auto
    with pos show ?thesis by simp
  next
    assume "\<exists>c\<in>set windowCandidates.
       fold (\<lambda>c b. if ?sc c > OptimalWindow.score b then candidateWindow hourly p c else b)
         windowCandidates ?b = candidateWindow hourly p c \<and>
       OptimalWindow.score ?b < ?sc c \<and>
       (\<forall>c'\<in>set windowCandidates. ?sc c' \<le> ?sc c) \<and>
       (\<forall>c'\<in>set windowCandidates. ?sc c' = ?sc c \<longrightarrow> c' = c \<or> lexBefore c c')"
    then show ?thesis
      unfolding findOptimalTimeWindow_fold kb by simp
  qed
qed

lemma tryWindow_first:
  "tryWindow hourly p 6 3 \<lparr>startHour = 9, endHour = 17, score = 0\<rparr> =
     \<lparr>startHour = 6, endHour = 9, score = windowScore hourly p 6 9\<rparr>"
  using first_window_positive [of hourly p] by (simp add: tryWindow_def Let_def)

lemma candidate_score_bound:
  assumes "duration \<le> 8"
  shows "2.8 - 1 / 10 ^ 13 \<le> windowScore hourly p start (start + duration)"
proof -
  have "real duration \<le> 8" using assms by simp
  then have "(90000000000001 / 100000000000000) * real duration \<le> (90000000000001 / 100000000000000) * 8"
    by (intro mult_left_mono) simp_all
  moreover have "10 - (90000000000001 / 100000000000000) * real (start + duration - start)
      \<le> windowScore hourly p start (start + duration)"
    using windowScore_bounds [of "start + duration" start hourly p] assms by simp
  ultimately show ?thesis by simp
qed

lemma candidate_score_le:
  assumes "c \<in> set windowCandidates"
  shows "windowScore hourly p (fst c) (fst c + snd c) \<le> 10"
proof -
  from assms have "snd c \<le> 8" by (auto simp add: set_windowCandidates)
  then show ?thesis using windowScore_bounds [of "fst c + snd c" "fst c" hourly p] by simp
qed

lemma first_window_perfect:
  assumes "windowScore hourly p 6 9 = 10"
  shows "findOptimalTimeWindow hourly p = \<lparr>startHour = 6, endHour = 9, score = 10\<rparr>"
proof -
  from findOptimalTimeWindow_winner [of hourly p] obtain c where
    c: "c \<in> set windowCandidates" and
    w: "findOptimalTimeWindow hourly p = candidateWindow hourly p c" and
    mx: "\<forall>c'\<in>set windowCandidates.
        windowScore hourly p (fst c') (fst c' + snd c') \<le> windowScore hourly p (fst c) (fst c + snd c)" and
    tie: "\<forall>c'\<in>set windowCandidates.
        windowScore hourly p (fst c') (fst c' + snd c') = windowScore hourly p (fst c) (fst c + snd c)
        \<longrightarrow> c' = c \<or> lexBefore c c'"
    by blast
  from mx first_candidate have "windowScore hourly p 6 9 \<le> windowScore hourly p (fst c) (fst c + snd c)"
    by fastforce
  moreover have "windowScore hourly p (fst c) (fst c + snd c) \<le> 10"
    using c by (rule candidate_score_le)
  ultimately have eq: "windowScore hourly p (fst c) (fst c + snd c) = 10"
    using assms by linarith
  with tie first_candidate assms have "(6, 3) = c \<or> lexBefore c (6, 3)"
    by fastforce
  moreover from c have "6 \<le> fst c" "3 \<le> snd c"
    by (auto simp add: set_windowCandidates)
  ultimately have "c = (6, 3)" by (auto simp add: lexBefore_def)
  then show ?thesis unfolding w using assms by (simp add: candidateWindow_def)
qed

lemma fold_hourPenalty_clean:
  assumes "\<forall>h\<in>set hs. idealTempMin p \<le> temp h \<and> temp h \<le> idealTempMax p \<and>
             wind h \<le> maxWindSpeed p \<and> precipitation h \<le> maxPrecipitation p"
  shows "fold (hourPenalty p) hs s = s"
  using assms by (induction hs arbitrary: s) (simp_all add: hourPenalty_def Let_def not_less)

lemma set_slice_subset: "set (slice xs start endh) \<subseteq> set xs"
  unfolding slice_take_drop
  by (meson set_take_subset set_drop_subset subset_trans)

subsection \<open>Rounded subtractions at the sample inputs\<close>

text \<open>
  For a difference in a known binade the rounding is a rounding to a multiple of a fixed
  power of two; the scores along runs of sample hours follow by evaluating each
  subtraction in turn.
\<close>

lemma binade_8_16: "8 \<le> a \<Longrightarrow> a < 16 \<Longrightarrow> binade a = 3"
  by (simp add: binade_def)

lemma binade_4_8: "4 \<le> a \<Longrightarrow> a < 8 \<Longrightarrow> binade a = 2"
  by (simp add: binade_def)

lemma binade_2_4: "2 \<le> a \<Longrightarrow> a < 4 \<Longrightarrow> binade a = 1"
  by (simp add: binade_def)

lemma fsub_binade_3:
  "8 \<le> x - y \<Longrightarrow> x - y < 16 \<Longrightarrow>
     fsub x y = of_int (roundTiesToEven ((x - y) * 562949953421312)) / 562949953421312"
  by (simp add: fsub_def toDouble_def binade_8_16 power_int_minus)

lemma fsub_binade_2:
  "4 \<le> x - y \<Longrightarrow> x - y < 8 \<Longrightarrow>
     fsub x y = of_int (roundTiesToEven ((x - y) * 1125899906842624)) / 1125899906842624"
  by (simp add: fsub_def toDouble_def binade_4_8 power_int_minus)

lemma fsub_binade_1:
  "2 \<le> x - y \<Longrightarrow> x - y < 4 \<Longrightarrow>
     fsub x y = of_int (roundTiesToEven ((x - y) * 2251799813685248)) / 2251799813685248"
  by (simp add: fsub_def toDouble_def binade_2_4 power_int_minus)

lemma stormy_hour:
  "hourPenalty trekkingProfile stormyHour s =
     fsub (fsub (fsub s (5404319552844595 / 18014398509481984))
                (3602879701896397 / 18014398509481984))
          (3602879701896397 / 9007199254740992)"
  unfolding hourPenalty_def Let_def double_03 double_02 double_04 by simp

lemma hot_hour:
  "hourPenalty trekkingProfile hotHour s = fsub s (5404319552844595 / 18014398509481984)"
  unfolding hourPenalty_def Let_def double_03 by simp

lemma stormy_1:
  "hourPenalty trekkingProfile stormyHour (10) = 5122844576133939 / 562949953421312"
proof -
  have a: "fsub (10) (5404319552844595 / 18014398509481984) = 2730307274093363 / 281474976710656"
    by (simp add: fsub_binade_3 roundTiesToEven_def Let_def)
  have b: "fsub (2730307274093363 / 281474976710656) (3602879701896397 / 18014398509481984) = 19 / 2"
    by (simp add: fsub_binade_3 roundTiesToEven_def Let_def)
  have c: "fsub (19 / 2) (3602879701896397 / 9007199254740992) = 5122844576133939 / 562949953421312"
    by (simp add: fsub_binade_3 roundTiesToEven_def Let_def)
  show ?thesis by (simp only: stormy_hour a b c)
qed

lemma stormy_2:
  "hourPenalty trekkingProfile stormyHour (5122844576133939 / 562949953421312) = 2308094809027379 / 281474976710656"
proof -
  have a: "fsub (5122844576133939 / 562949953421312) (5404319552844595 / 18014398509481984) = 4953959590107545 / 562949953421312"
    by (simp add: fsub_binade_3 roundTiesToEven_def Let_def)
  have b: "fsub (4953959590107545 / 562949953421312) (3602879701896397 / 18014398509481984) = 4841369599423283 / 562949953421312"
    by (simp add: fsub_binade_3 roundTiesToEven_def Let_def)
  have c: "fsub (4841369599423283 / 562949953421312) (3602879701896397 / 9007199254740992) = 2308094809027379 / 281474976710656"
    by (simp add: fsub_binade_3 roundTiesToEven_def Let_def)
  show ?thesis by (simp only: stormy_hour a b c)
qed

lemma stormy_3:
  "hourPenalty trekkingProfile stormyHour (2308094809027379 / 281474976710656) = 4109534659975577 / 562949953421312"
proof -
  have a: "fsub (2308094809027379 / 281474976710656) (5404319552844595 / 18014398509481984) = 8894609264056729 / 1125899906842624"
    by (simp add: fsub_binade_2 roundTiesToEven_def Let_def)
  have b: "fsub (8894609264056729 / 1125899906842624) (3602879701896397 / 18014398509481984) = 2167357320672051 / 281474976710656"
    by (simp add: fsub_binade_2 roundTiesToEven_def Let_def)
  have c: "fsub (2167357320672051 / 281474976710656) (3602879701896397 / 9007199254740992) = 4109534659975577 / 562949953421312"
    by (simp add: fsub_binade_2 roundTiesToEven_def Let_def)
  show ?thesis by (simp only: stormy_hour a b c)
qed

lemma stormy_4:
  "hourPenalty trekkingProfile stormyHour (4109534659975577 / 562949953421312) = 900719925474099 / 140737488355328"
proof -
  have a: "fsub (4109534659975577 / 562949953421312) (5404319552844595 / 18014398509481984) = 7881299347898367 / 1125899906842624"
    by (simp add: fsub_binade_2 roundTiesToEven_def Let_def)
  have b: "fsub (7881299347898367 / 1125899906842624) (3602879701896397 / 18014398509481984) = 3828059683264921 / 562949953421312"
    by (simp add: fsub_binade_2 roundTiesToEven_def Let_def)
  have c: "fsub (3828059683264921 / 562949953421312) (3602879701896397 / 9007199254740992) = 900719925474099 / 140737488355328"
    by (simp add: fsub_binade_2 roundTiesToEven_def Let_def)
  show ?thesis by (simp only: stormy_hour a b c)
qed

lemma stormy_5:
  "hourPenalty trekkingProfile stormyHour (900719925474099 / 140737488355328) = 3096224743817215 / 562949953421312"
proof -
  have a: "fsub (900719925474099 / 140737488355328) (5404319552844595 / 18014398509481984) = 6867989431740005 / 1125899906842624"
    by (simp add: fsub_binade_2 roundTiesToEven_def Let_def)
  have b: "fsub (6867989431740005 / 1125899906842624) (3602879701896397 / 18014398509481984) = 830351181296435 / 140737488355328"
    by (simp add: fsub_binade_2 roundTiesToEven_def Let_def)
  have c: "fsub (830351181296435 / 140737488355328) (3602879701896397 / 9007199254740992) = 3096224743817215 / 562949953421312"
    by (simp add: fsub_binade_2 roundTiesToEven_def Let_def)
  show ?thesis by (simp only: stormy_hour a b c)
qed

lemma stormy_6:
  "hourPenalty trekkingProfile stormyHour (3096224743817215 / 562949953421312) = 1294784892869017 / 281474976710656"
proof -
  have a: "fsub (3096224743817215 / 562949953421312) (5404319552844595 / 18014398509481984) = 5854679515581643 / 1125899906842624"
    by (simp add: fsub_binade_2 roundTiesToEven_def Let_def)
  have b: "fsub (5854679515581643 / 1125899906842624) (3602879701896397 / 18014398509481984) = 2814749767106559 / 562949953421312"
    by (simp add: fsub_binade_2 roundTiesToEven_def Let_def)
  have c: "fsub (2814749767106559 / 562949953421312) (3602879701896397 / 9007199254740992) = 1294784892869017 / 281474976710656"
    by (simp add: fsub_binade_2 roundTiesToEven_def Let_def)
  show ?thesis by (simp only: stormy_hour a b c)
qed

lemma stormy_7:
  "hourPenalty trekkingProfile stormyHour (1294784892869017 / 281474976710656) = 8331659310635413 / 2251799813685248"
proof -
  have a: "fsub (1294784892869017 / 281474976710656) (5404319552844595 / 18014398509481984) = 4841369599423281 / 1125899906842624"
    by (simp add: fsub_binade_2 roundTiesToEven_def Let_def)
  have b: "fsub (4841369599423281 / 1125899906842624) (3602879701896397 / 18014398509481984) = 1154047404513689 / 281474976710656"
    by (simp add: fsub_binade_2 roundTiesToEven_def Let_def)
  have c: "fsub (1154047404513689 / 281474976710656) (3602879701896397 / 9007199254740992) = 8331659310635413 / 2251799813685248"
    by (simp add: fsub_binade_1 roundTiesToEven_def Let_def)
  show ?thesis by (simp only: stormy_hour a b c)
qed

lemma stormy_8:
  "hourPenalty trekkingProfile stormyHour (8331659310635413 / 2251799813685248) = 3152519739159345 / 1125899906842624"
proof -
  have a: "fsub (8331659310635413 / 2251799813685248) (5404319552844595 / 18014398509481984) = 7656119366529839 / 2251799813685248"
    by (simp add: fsub_binade_1 roundTiesToEven_def Let_def)
  have b: "fsub (7656119366529839 / 2251799813685248) (3602879701896397 / 18014398509481984) = 7205759403792789 / 2251799813685248"
    by (simp add: fsub_binade_1 roundTiesToEven_def Let_def)
  have c: "fsub (7205759403792789 / 2251799813685248) (3602879701896397 / 9007199254740992) = 3152519739159345 / 1125899906842624"
    by (simp add: fsub_binade_1 roundTiesToEven_def Let_def)
  show ?thesis by (simp only: stormy_hour a b c)
qed

lemma hot_1:
  "hourPenalty trekkingProfile hotHour (10) = 2730307274093363 / 281474976710656"
  unfolding hot_hour by (simp add: fsub_binade_3 roundTiesToEven_def Let_def)

lemma hot_2:
  "hourPenalty trekkingProfile hotHour (2730307274093363 / 281474976710656) = 1322932390540083 / 140737488355328"
  unfolding hot_hour by (simp add: fsub_binade_3 roundTiesToEven_def Let_def)

lemma hot_3:
  "hourPenalty trekkingProfile hotHour (1322932390540083 / 140737488355328) = 2561422288066969 / 281474976710656"
  unfolding hot_hour by (simp add: fsub_binade_3 roundTiesToEven_def Let_def)

lemma calm_hour: "hourPenalty trekkingProfile calmHour s = s"
  by (simp add: hourPenalty_def Let_def)

lemma fold_Cons_apply: "fold f (x # xs) s = fold f xs (f x s)"
  by simp

lemma fold_Nil_apply: "fold f [] s = s"
  by simp

lemma windowScore_stormy_8:
  "windowScore (replicate 24 stormyHour) trekkingProfile 6 14 = 3152519739159345 / 1125899906842624"
proof -
  have sl: "slice (replicate 24 stormyHour) 6 14 =
      [stormyHour, stormyHour, stormyHour, stormyHour, stormyHour, stormyHour, stormyHour,
       stormyHour]"
    by code_simp
  show ?thesis
    by (simp only: windowScore_def Let_def sl fold_Cons_apply fold_Nil_apply
        stormy_1 stormy_2 stormy_3 stormy_4 stormy_5 stormy_6 stormy_7 stormy_8)
qed

lemma windowScore_stormy_short:
  "windowScore (replicate 7 stormyHour) trekkingProfile 6 9 = 5122844576133939 / 562949953421312"
proof -
  have sl: "slice (replicate 7 stormyHour) 6 9 = [stormyHour]"
    by code_simp
  show ?thesis
    by (simp only: windowScore_def Let_def sl fold_Cons_apply fold_Nil_apply stormy_1)
qed

lemma windowScore_hot_3:
  "windowScore (replicate 17 hotHour @ stormyHour # replicate 6 calmHour) trekkingProfile
     6 9 = 2561422288066969 / 281474976710656"
proof -
  have sl: "slice (replicate 17 hotHour @ stormyHour # replicate 6 calmHour) 6 9 =
      [hotHour, hotHour, hotHour]"
    by code_simp
  show ?thesis
    by (simp only: windowScore_def Let_def sl fold_Cons_apply fold_Nil_apply hot_1 hot_2 hot_3)
qed

lemma windowScore_stormy_then_calm:
  "windowScore (replicate 17 hotHour @ stormyHour # replicate 6 calmHour) trekkingProfile
     17 20 = 5122844576133939 / 562949953421312"
proof -
  have sl: "slice (replicate 17 hotHour @ stormyHour # replicate 6 calmHour) 17 20 =
      [stormyHour, calmHour, calmHour]"
    by code_simp
  show ?thesis
    by (simp only: windowScore_def Let_def sl fold_Cons_apply fold_Nil_apply stormy_1 calm_hour)
qed

subsection \<open>The claims about the window finder\<close>

text \<open>
  Claim C2, as stated, fails: on 24 identical samples of a calm hour and the trekking
  profile every candidate scores 10, the first candidate (start 6, duration 3) takes
  the lead and no later candidate of equal score replaces it, so the result ends at
  hour 9 and is not the window from 6 to 14.
\<close>

theorem findOptimalTimeWindow_identical_samples_counterexample:
  "(idealTempMin trekkingProfile \<le> temp calmHour \<and>
    temp calmHour \<le> idealTempMax trekkingProfile \<and>
    wind calmHour \<le> maxWindSpeed trekkingProfile \<and>
    precipitation calmHour \<le> maxPrecipitation trekkingProfile) \<and>
   findOptimalTimeWindow (replicate 24 calmHour) trekkingProfile \<noteq> \<lparr>startHour = 6, endHour = 14, score = 10\<rparr>"
proof -
  have "findOptimalTimeWindow (replicate 24 calmHour) trekkingProfile = \<lparr>startHour = 6, endHour = 9, score = 10\<rparr>"
    by code_simp
  then show ?thesis by simp
qed

text \<open>
  Claim C2, amended.  For 24 identical hourly samples whose temperature lies inside the
  profile's ideal range and whose wind and precipitation are within the profile's
  bounds, the result is the window from hour 6 to hour 9 with score 10: the
  earliest-starting and, for that start, shortest window with score 10.
\<close>

theorem findOptimalTimeWindow_identical_samples:
  assumes "idealTempMin p \<le> temp sample" and "temp sample \<le> idealTempMax p"
    and "wind sample \<le> maxWindSpeed p" and "precipitation sample \<le> maxPrecipitation p"
  shows "findOptimalTimeWindow (replicate 24 sample) p = \<lparr>startHour = 6, endHour = 9, score = 10\<rparr>"
proof -
  have "set (slice (replicate 24 sample) 6 9) \<subseteq> {sample}"
    using set_slice_subset [of "replicate 24 sample" 6 9] by auto
  then have "\<forall>h\<in>set (slice (replicate 24 sample) 6 9). idealTempMin p \<le> temp h \<and>
      temp h \<le> idealTempMax p \<and> wind h \<le> maxWindSpeed p \<and> precipitation h \<le> maxPrecipitation p"
    using assms by auto
  then have "windowScore (replicate 24 sample) p 6 9 = 10"
    unfolding windowScore_def Let_def by (rule fold_hourPenalty_clean)
  then show ?thesis by (rule first_window_perfect)
qed

theorem findOptimalTimeWindow_identical_samples_witness:
  "(idealTempMin trekkingProfile \<le> temp calmHour \<and>
    temp calmHour \<le> idealTempMax trekkingProfile \<and>
    wind calmHour \<le> maxWindSpeed trekkingProfile \<and>
    precipitation calmHour \<le> maxPrecipitation trekkingProfile) \<and>
   findOptimalTimeWindow (replicate 24 calmHour) trekkingProfile = \<lparr>startHour = 6, endHour = 9, score = 10\<rparr>"
  using findOptimalTimeWindow_identical_samples [of "trekkingProfile" "calmHour"]
  by simp

text \<open>
  Claim C3.  The returned window is one of the enumerated candidates (start hour from 6
  to 17, duration from 3 to 8, end hour = start + duration at most 20) and carries that
  candidate's score; no enumerated candidate scores higher; and every enumerated
  candidate that scores the same starts later, or starts at the same hour and lasts at
  least as long.
\<close>

theorem findOptimalTimeWindow_first_maximum:
  "6 \<le> startHour (findOptimalTimeWindow hourly p) \<and>
   startHour (findOptimalTimeWindow hourly p) \<le> 17 \<and>
   endHour (findOptimalTimeWindow hourly p) \<le> 20 \<and>
   (\<exists>duration. 3 \<le> duration \<and> duration \<le> 8 \<and>
      endHour (findOptimalTimeWindow hourly p) = startHour (findOptimalTimeWindow hourly p) + duration) \<and>
   OptimalWindow.score (findOptimalTimeWindow hourly p) =
     windowScore hourly p (startHour (findOptimalTimeWindow hourly p))
       (endHour (findOptimalTimeWindow hourly p)) \<and>
   (\<forall>start duration.
      6 \<le> start \<and> start \<le> 17 \<and> 3 \<le> duration \<and> duration \<le> 8 \<and> start + duration \<le> 20 \<longrightarrow>
      windowScore hourly p start (start + duration) \<le> OptimalWindow.score (findOptimalTimeWindow hourly p) \<and>
      (windowScore hourly p start (start + duration) = OptimalWindow.score (findOptimalTimeWindow hourly p) \<longrightarrow>
         startHour (findOptimalTimeWindow hourly p) < start \<or>
         (startHour (findOptimalTimeWindow hourly p) = start \<and>
          endHour (findOptimalTimeWindow hourly p) \<le> start + duration)))"
proof -
  from findOptimalTimeWindow_winner [of hourly p] obtain c where
    c: "c \<in> set windowCandidates" and
    w: "findOptimalTimeWindow hourly p = candidateWindow hourly p c" and
    mx: "\<forall>c'\<in>set windowCandidates.
        windowScore hourly p (fst c') (fst c' + snd c') \<le> windowScore hourly p (fst c) (fst c + snd c)" and
    tie: "\<forall>c'\<in>set windowCandidates.
        windowScore hourly p (fst c') (fst c' + snd c') = windowScore hourly p (fst c) (fst c + snd c)
        \<longrightarrow> c' = c \<or> lexBefore c c'"
    by blast
  from c have rng: "6 \<le> fst c" "fst c \<le> 17" "3 \<le> snd c" "snd c \<le> 8" "fst c + snd c \<le> 20"
    by (auto simp add: set_windowCandidates)
  have sel: "startHour (findOptimalTimeWindow hourly p) = fst c"
    "endHour (findOptimalTimeWindow hourly p) = fst c + snd c"
    "OptimalWindow.score (findOptimalTimeWindow hourly p) = windowScore hourly p (fst c) (fst c + snd c)"
    unfolding w by (simp_all add: candidateWindow_def)
  have "\<exists>duration. 3 \<le> duration \<and> duration \<le> 8 \<and> fst c + snd c = fst c + duration"
    using rng by blast
  moreover have "windowScore hourly p start (start + duration) \<le> windowScore hourly p (fst c) (fst c + snd c) \<and>
      (windowScore hourly p start (start + duration) = windowScore hourly p (fst c) (fst c + snd c) \<longrightarrow>
         fst c < start \<or> (fst c = start \<and> fst c + snd c \<le> start + duration))"
    if "6 \<le> start \<and> start \<le> 17 \<and> 3 \<le> duration \<and> duration \<le> 8 \<and> start + duration \<le> 20"
    for start duration
  proof -
    from that have m: "(start, duration) \<in> set windowCandidates"
      by (simp add: set_windowCandidates)
    from mx m have "windowScore hourly p start (start + duration) \<le> windowScore hourly p (fst c) (fst c + snd c)"
      by fastforce
    moreover from tie m have "windowScore hourly p start (start + duration) = windowScore hourly p (fst c) (fst c + snd c)
       \<longrightarrow> (start, duration) = c \<or> lexBefore c (start, duration)"
      by fastforce
    then have "windowScore hourly p start (start + duration) = windowScore hourly p (fst c) (fst c + snd c) \<longrightarrow>
         fst c < start \<or> (fst c = start \<and> fst c + snd c \<le> start + duration)"
      by (auto simp add: lexBefore_def)
    ultimately show ?thesis by blast
  qed
  ultimately show ?thesis unfolding sel using rng by blast
qed

theorem findOptimalTimeWindow_first_maximum_witness:
  "(6 \<le> (11::nat) \<and> (11::nat) \<le> 17 \<and> 3 \<le> (3::nat) \<and> (3::nat) \<le> 8 \<and> (11::nat) + 3 \<le> 20) \<and>
   windowScore (replicate 24 calmHour) trekkingProfile 11 14 =
     OptimalWindow.score
       (findOptimalTimeWindow (replicate 24 calmHour) trekkingProfile) \<and>
   startHour (findOptimalTimeWindow (replicate 24 calmHour) trekkingProfile) < 11 \<and>
   findOptimalTimeWindow (replicate 24 calmHour) trekkingProfile =
     \<lparr>startHour = 6, endHour = 9, score = 10\<rparr> \<and>
   (6 \<le> (17::nat) \<and> (17::nat) \<le> 17 \<and> 3 \<le> (3::nat) \<and> (3::nat) \<le> 8 \<and> (17::nat) + 3 \<le> 20) \<and>
   windowScore (replicate 17 hotHour @ stormyHour # replicate 6 calmHour) trekkingProfile 17 20 = 5122844576133939 / 562949953421312 \<and>
   windowScore (replicate 17 hotHour @ stormyHour # replicate 6 calmHour) trekkingProfile 17 20
     \<le> OptimalWindow.score (findOptimalTimeWindow (replicate 17 hotHour @ stormyHour # replicate 6 calmHour) trekkingProfile) \<and>
   windowScore (replicate 17 hotHour @ stormyHour # replicate 6 calmHour) trekkingProfile 6 9 = 2561422288066969 / 281474976710656 \<and>
   windowScore (replicate 17 hotHour @ stormyHour # replicate 6 calmHour) trekkingProfile 6 9
     < OptimalWindow.score (findOptimalTimeWindow (replicate 17 hotHour @ stormyHour # replicate 6 calmHour) trekkingProfile)"
proof -
  have r: "windowScore h p start (start + duration)
      \<le> OptimalWindow.score (findOptimalTimeWindow h p)"
    if "6 \<le> start \<and> start \<le> 17 \<and> 3 \<le> duration \<and> duration \<le> 8 \<and> start + duration \<le> 20"
    for h p start duration
    using that findOptimalTimeWindow_first_maximum [of h p] by blast
  have e: "findOptimalTimeWindow (replicate 24 calmHour) trekkingProfile =
      \<lparr>startHour = 6, endHour = 9, score = 10\<rparr>"
    by code_simp
  have s: "windowScore (replicate 24 calmHour) trekkingProfile 11 14 = 10"
    by code_simp
  have a: "windowScore (replicate 17 hotHour @ stormyHour # replicate 6 calmHour) trekkingProfile 17 20
      \<le> OptimalWindow.score (findOptimalTimeWindow (replicate 17 hotHour @ stormyHour # replicate 6 calmHour) trekkingProfile)"
    using r [of 17 3 "(replicate 17 hotHour @ stormyHour # replicate 6 calmHour)" trekkingProfile] by simp
  then have "5122844576133939 / 562949953421312 \<le> OptimalWindow.score (findOptimalTimeWindow (replicate 17 hotHour @ stormyHour # replicate 6 calmHour) trekkingProfile)"
    unfolding windowScore_stormy_then_calm .
  then have l: "2561422288066969 / 281474976710656 < OptimalWindow.score (findOptimalTimeWindow (replicate 17 hotHour @ stormyHour # replicate 6 calmHour) trekkingProfile)"
    by simp
  show ?thesis
    using a l by (simp add: e s windowScore_stormy_then_calm windowScore_hot_3)
qed

text \<open>
  Claim C4.  For every hourly array and every profile the returned window starts at
  hour 6 or later, ends at hour 20 or earlier, and its length, end hour minus start
  hour, is at least 3 and at most 8.
\<close>

theorem findOptimalTimeWindow_bounds:
  "6 \<le> startHour (findOptimalTimeWindow hourly p) \<and>
   endHour (findOptimalTimeWindow hourly p) \<le> 20 \<and>
   startHour (findOptimalTimeWindow hourly p) < endHour (findOptimalTimeWindow hourly p) \<and>
   3 \<le> endHour (findOptimalTimeWindow hourly p) - startHour (findOptimalTimeWindow hourly p) \<and>
   endHour (findOptimalTimeWindow hourly p) - startHour (findOptimalTimeWindow hourly p) \<le> 8"
proof -
  from findOptimalTimeWindow_winner [of hourly p] obtain c where
    c: "c \<in> set windowCandidates" and
    w: "findOptimalTimeWindow hourly p = candidateWindow hourly p c"
    by blast
  from c have "6 \<le> fst c" "3 \<le> snd c" "snd c \<le> 8" "fst c + snd c \<le> 20"
    by (auto simp add: set_windowCandidates)
  then show ?thesis unfolding w by (simp add: candidateWindow_def)
qed

text \<open>
  Claim C8.  Both loops terminate from every state, for every hourly array.  Slicing
  reads only indices that exist: the window from \<open>start\<close> to \<open>endh\<close> holds the elements
  at the indices from \<open>start\<close> up to the smaller of \<open>endh\<close> and the length of the array.
  Hence the score of a window that reaches beyond the end of the array is the score of
  the window cut off at the end of the array: the missing hours subtract nothing, and a
  window that starts at or beyond the end of the array scores 10.  The result is always
  the window of an enumerated candidate; for an array of at most 6 samples (the empty
  one included) it is the window from 6 to 9 with score 10.
\<close>

theorem findOptimalTimeWindow_short_arrays:
  "durationLoop_dom (hourly, p, start, duration, b) \<and>
   startLoop_dom (hourly, p, start, b) \<and>
   slice hourly start endh = map ((!) hourly) [start ..< min endh (length hourly)] \<and>
   windowScore hourly p start endh = windowScore hourly p start (min endh (length hourly)) \<and>
   (length hourly \<le> start \<longrightarrow> windowScore hourly p start endh = 10) \<and>
   (length hourly \<le> 6 \<longrightarrow>
      findOptimalTimeWindow hourly p = \<lparr>startHour = 6, endHour = 9, score = 10\<rparr>) \<and>
   (\<exists>c\<in>set windowCandidates. findOptimalTimeWindow hourly p = candidateWindow hourly p c)"
proof -
  have short: "windowScore hourly p s e = 10" if "length hourly \<le> s" for s e
    using that by (simp add: windowScore_def Let_def slice_take_drop)
  then have "length hourly \<le> 6 \<longrightarrow>
      findOptimalTimeWindow hourly p = \<lparr>startHour = 6, endHour = 9, score = 10\<rparr>"
    using first_window_perfect [of hourly p] by blast
  moreover have "\<exists>c\<in>set windowCandidates. findOptimalTimeWindow hourly p = candidateWindow hourly p c"
    using findOptimalTimeWindow_winner [of hourly p] by blast
  moreover have "windowScore hourly p start endh =
      windowScore hourly p start (min endh (length hourly))"
    unfolding windowScore_def Let_def by (subst slice_min) (rule refl)
  ultimately show ?thesis
    using durationLoop_total startLoop_total slice_nth short
    by blast
qed

theorem findOptimalTimeWindow_short_arrays_witness:
  "length ([] :: HourlyWeather list) \<le> 6 \<and>
   windowScore [] trekkingProfile 6 9 = 10 \<and>
   findOptimalTimeWindow [] trekkingProfile = \<lparr>startHour = 6, endHour = 9, score = 10\<rparr> \<and>
   length (replicate 7 stormyHour) \<le> 7 \<and>
   windowScore (replicate 7 stormyHour) trekkingProfile 7 10 = 10 \<and>
   windowScore (replicate 7 stormyHour) trekkingProfile 6 9 =
     windowScore (replicate 7 stormyHour) trekkingProfile 6 7 \<and>
   windowScore (replicate 7 stormyHour) trekkingProfile 6 9 = 5122844576133939 / 562949953421312"
  using findOptimalTimeWindow_short_arrays
      [of "[]" trekkingProfile 6 3 "\<lparr>startHour = 9, endHour = 17, score = 0\<rparr>" 9]
    findOptimalTimeWindow_short_arrays
      [of "replicate 7 stormyHour" trekkingProfile 7 3
          "\<lparr>startHour = 9, endHour = 17, score = 0\<rparr>" 10]
    findOptimalTimeWindow_short_arrays
      [of "replicate 7 stormyHour" trekkingProfile 6 3
          "\<lparr>startHour = 9, endHour = 17, score = 0\<rparr>" 9]
    windowScore_stormy_short
  by simp

text \<open>
  Claim C9, as stated, fails in its bound on every candidate: for 24 hours that break all
  three limits of the trekking profile, the candidate with start 6 and duration 8 makes
  24 rounded subtractions and ends strictly below 2.8.
\<close>

theorem findOptimalTimeWindow_never_default_counterexample:
  "(6 \<le> (6::nat) \<and> (6::nat) \<le> 17 \<and> 3 \<le> (8::nat) \<and> (8::nat) \<le> 8 \<and> (6::nat) + 8 \<le> 20) \<and>
   windowScore (replicate 24 stormyHour) trekkingProfile 6 14 = 3152519739159345 / 1125899906842624 \<and>
   \<not> 2.8 \<le> windowScore (replicate 24 stormyHour) trekkingProfile 6 14"
  by (simp add: windowScore_stormy_8)

text \<open>
  Claim C9, amended.  The result is never the initial value with start 9, end 17 and
  score 0.  Every window of a duration from 3 to 8 scores at least 2.8 - 1 / 10^13, which is
  positive; the first candidate (start 6, duration 3) always replaces the initial value;
  and the returned score lies between 2.8 and 10.
\<close>

theorem findOptimalTimeWindow_never_default:
  "findOptimalTimeWindow hourly p \<noteq> \<lparr>startHour = 9, endHour = 17, score = 0\<rparr> \<and>
   (\<forall>start duration. 3 \<le> duration \<and> duration \<le> 8 \<longrightarrow>
      2.8 - 1 / 10 ^ 13 \<le> windowScore hourly p start (start + duration)) \<and>
   tryWindow hourly p 6 3 \<lparr>startHour = 9, endHour = 17, score = 0\<rparr> =
     \<lparr>startHour = 6, endHour = 9, score = windowScore hourly p 6 9\<rparr> \<and>
   2.8 \<le> OptimalWindow.score (findOptimalTimeWindow hourly p) \<and>
   OptimalWindow.score (findOptimalTimeWindow hourly p) \<le> 10"
proof -
  from findOptimalTimeWindow_winner [of hourly p] obtain c where
    c: "c \<in> set windowCandidates" and
    w: "findOptimalTimeWindow hourly p = candidateWindow hourly p c" and
    pos: "0 < windowScore hourly p (fst c) (fst c + snd c)" and
    mx: "\<forall>c'\<in>set windowCandidates.
        windowScore hourly p (fst c') (fst c' + snd c') \<le> windowScore hourly p (fst c) (fst c + snd c)"
    by blast
  have sc: "OptimalWindow.score (findOptimalTimeWindow hourly p) =
      windowScore hourly p (fst c) (fst c + snd c)"
    unfolding w by (simp add: candidateWindow_def)
  have "OptimalWindow.score (findOptimalTimeWindow hourly p) \<noteq> 0" using pos sc by simp
  then have "findOptimalTimeWindow hourly p \<noteq> \<lparr>startHour = 9, endHour = 17, score = 0\<rparr>"
    by auto
  moreover have "2.8 \<le> OptimalWindow.score (findOptimalTimeWindow hourly p)"
  proof -
    from mx first_candidate
    have "windowScore hourly p 6 9 \<le> windowScore hourly p (fst c) (fst c + snd c)"
      by fastforce
    with first_window_positive [of hourly p] show ?thesis unfolding sc by simp
  qed
  moreover have "OptimalWindow.score (findOptimalTimeWindow hourly p) \<le> 10"
    unfolding sc using c by (rule candidate_score_le)
  ultimately show ?thesis
    using candidate_score_bound [of _ hourly p] tryWindow_first [of hourly p] by blast
qed

theorem findOptimalTimeWindow_never_default_witness:
  "(3 \<le> (8::nat) \<and> (8::nat) \<le> 8) \<and>
   2.8 - 1 / 10 ^ 13 \<le> windowScore (replicate 24 stormyHour) trekkingProfile 6 14 \<and>
   windowScore (replicate 24 stormyHour) trekkingProfile 6 14 = 3152519739159345 / 1125899906842624 \<and>
   2.8 \<le> OptimalWindow.score (findOptimalTimeWindow (replicate 24 stormyHour) trekkingProfile)"
  using findOptimalTimeWindow_never_default [of "replicate 24 stormyHour" trekkingProfile]
    windowScore_stormy_8
  by simp

section \<open>Properties of the profile lookup\<close>

text \<open>A name whose lower-case form is an own property of the table resolves to that profile.\<close>

lemma getActivityPreferences_known:
  "map_of activityDefaults (toLowerCase activityName) = Some profile \<Longrightarrow>
     getActivityPreferences activityName = Profile profile"
  by (simp add: getActivityPreferences_def activityDefaults_get_def Let_def)

lemma trekking_own:
  "activityDefaults_get ''trekking'' =
     Profile \<lparr>idealTempMin = 10, idealTempMax = 25, maxWindSpeed = 20, maxPrecipitation = 20\<rparr>"
  by (simp add: activityDefaults_get_def activityDefaults_def)

text \<open>
  A name whose lower-case form is neither an own property of the table nor a property
  name of \<^verbatim>\<open>Object.prototype\<close> resolves to the trekking profile.
\<close>

lemma getActivityPreferences_fallback:
  "map_of activityDefaults (toLowerCase activityName) = None \<Longrightarrow>
   toLowerCase activityName \<notin> set Object_prototype_keys \<Longrightarrow>
     getActivityPreferences activityName =
       Profile \<lparr>idealTempMin = 10, idealTempMax = 25, maxWindSpeed = 20, maxPrecipitation = 20\<rparr>"
  by (simp add: getActivityPreferences_def Let_def trekking_own)
     (simp add: activityDefaults_get_def)

text \<open>
  Claim C7 at the activity name \<^verbatim>\<open>constructor\<close>, which is none of the ten known names:
  the property read finds the member of that name inherited from \<^verbatim>\<open>Object.prototype\<close>,
  which is truthy, so the fallback is not taken and the result is not the trekking
  profile.
\<close>

theorem getActivityPreferences_constructor:
  "map_of activityDefaults (toLowerCase ''constructor'') = None \<and>
   getActivityPreferences ''constructor'' = Inherited ''constructor'' \<and>
   getActivityPreferences ''constructor'' \<noteq>
     Profile \<lparr>idealTempMin = 10, idealTempMax = 25, maxWindSpeed = 20, maxPrecipitation = 20\<rparr>"
  by code_simp

end
